theory Spec2Isabelle
  imports Complex_Main
begin

section \<open>Adaptable symplectic recurrent neural network\<close>

text \<open>
  A shallow embedding of \<^verbatim>\<open>adaptable_symplectic_recurrent_neural_network.py\<close>:
  the Hamiltonian estimators (\<^verbatim>\<open>adaptable_HNN\<close>, \<^verbatim>\<open>adaptable_partial_HNN\<close>), the
  recurrent integrator (\<^verbatim>\<open>adaptable_sympRNN\<close> with \<^verbatim>\<open>step\<close>, \<^verbatim>\<open>step2\<close> and
  \<^verbatim>\<open>forward\<close>) and the training driver \<^verbatim>\<open>train_validate\<close>.

  Conventions of the embedding.
  \<^item> A tensor is its array of values, over the reals: a 2-D tensor is the list of its
    rows (batch first), a 3-D tensor the list of its 2-D time slices. Rounding, dtype
    and device are not modelled.
  \<^item> Autograd bookkeeping is not part of a value. \<^verbatim>\<open>torch.autograd.grad\<close> of the summed
    network output with respect to the network input is the derivative of the layers,
    computed by reverse accumulation; \<^verbatim>\<open>create_graph\<close> changes what is retained, not the
    numbers. The phase-space inputs are taken to have gradient tracking switched on,
    which is the precondition of every estimator call: on an input without it the first
    \<^verbatim>\<open>torch.autograd.grad\<close> raises, so a value \<open>Inr\<close> of the model is the result of
    the code on tracked inputs, and nothing here says that the code returns on others.
  \<^item> Every raise is a value \<open>Inl e\<close>. Operands whose shapes differ are rejected with
    \<open>ShapeMismatch\<close>; torch's stretching of size-one axes is not modelled.
\<close>

subsection \<open>Errors and results\<close>

datatype error = ShapeMismatch | TypeError | AttributeError | IndexError | ZeroDivisionError

definition bind_res :: "'e + 'a \<Rightarrow> ('a \<Rightarrow> 'e + 'b) \<Rightarrow> 'e + 'b" where
  "bind_res r f = (case r of Inl e \<Rightarrow> Inl e | Inr v \<Rightarrow> f v)"

fun map_res :: "('a \<Rightarrow> error + 'b) \<Rightarrow> 'a list \<Rightarrow> error + 'b list" where
  "map_res f [] = Inr []"
| "map_res f (x # xs) =
     bind_res (f x) (\<lambda>y. bind_res (map_res f xs) (\<lambda>ys. Inr (y # ys)))"

subsection \<open>Tensors\<close>

type_synonym vec = "real list"
type_synonym tensor = "real list list"
type_synonym tensor3 = "real list list list"

definition same_shape :: "tensor \<Rightarrow> tensor \<Rightarrow> bool" where
  "same_shape a b \<longleftrightarrow> map length a = map length b"

text \<open>\<^verbatim>\<open>a + b\<close> on tensors.\<close>

definition tensor_add :: "tensor \<Rightarrow> tensor \<Rightarrow> error + tensor" where
  "tensor_add a b =
     (if same_shape a b then Inr (map2 (map2 (+)) a b) else Inl ShapeMismatch)"

text \<open>\<^verbatim>\<open>c * a\<close> for a Python number \<open>c\<close>, and \<^verbatim>\<open>-a\<close>.\<close>

definition scale :: "real \<Rightarrow> tensor \<Rightarrow> tensor" where
  "scale c a = map (map ((*) c)) a"

definition neg :: "tensor \<Rightarrow> tensor" where
  "neg a = map (map uminus) a"

text \<open>\<^verbatim>\<open>torch.cat(ts, dim=1)\<close>: the rows are joined; the row counts must agree.\<close>

fun cat1 :: "tensor list \<Rightarrow> error + tensor" where
  "cat1 [] = Inl ShapeMismatch"
| "cat1 [a] = Inr a"
| "cat1 (a # b # ts) =
     bind_res (cat1 (b # ts)) (\<lambda>r.
       if length a = length r then Inr (map2 (@) a r) else Inl ShapeMismatch)"

text \<open>\<^verbatim>\<open>torch.zeros(n, batch, dim)\<close>, \<^verbatim>\<open>buf[t]\<close> and \<^verbatim>\<open>buf[t] = x\<close>.\<close>

definition zeros :: "nat \<Rightarrow> nat \<Rightarrow> nat \<Rightarrow> tensor3" where
  "zeros n batch width = replicate n (replicate batch (replicate width 0))"

definition getitem :: "tensor3 \<Rightarrow> nat \<Rightarrow> error + tensor" where
  "getitem buf t = (if t < length buf then Inr (buf ! t) else Inl IndexError)"

definition setitem :: "tensor3 \<Rightarrow> nat \<Rightarrow> tensor \<Rightarrow> error + tensor3" where
  "setitem buf t x =
     (if \<not> t < length buf then Inl IndexError
      else if same_shape (buf ! t) x then Inr (buf[t := x])
      else Inl ShapeMismatch)"

text \<open>\<^verbatim>\<open>batch, dim = x.shape\<close> for a 2-D tensor (the source's \<open>dim\<close> is \<open>width\<close> here).\<close>

definition shape :: "tensor \<Rightarrow> nat \<times> nat" where
  "shape x = (length x, case x of [] \<Rightarrow> 0 | r # _ \<Rightarrow> length r)"

text \<open>A list of rows stands for a 2-D tensor when all its rows have one length.\<close>

definition is_tensor :: "tensor \<Rightarrow> bool" where
  "is_tensor x \<longleftrightarrow> map length x = replicate (length x) (snd (shape x))"

subsection \<open>Layers\<close>

text \<open>
  \<^verbatim>\<open>nn.Linear\<close> holds a weight matrix with one row per output feature and a bias;
  \<^verbatim>\<open>nn.Sequential\<close> is a list of modules applied in order. A module acts on each row
  of the batch independently.
\<close>

record linear =
  in_features :: nat
  weight :: "real list list"
  bias :: "real list"

datatype module = Linear linear | Tanh

definition dot :: "vec \<Rightarrow> vec \<Rightarrow> real" where
  "dot u v = sum_list (map2 (*) u v)"

fun module_apply :: "module \<Rightarrow> vec \<Rightarrow> error + vec" where
  "module_apply (Linear l) x =
     (if length x = in_features l
      then Inr (map2 (\<lambda>w b. dot w x + b) (weight l) (bias l))
      else Inl ShapeMismatch)"
| "module_apply Tanh x = Inr (map tanh x)"

fun sequential :: "module list \<Rightarrow> vec \<Rightarrow> error + vec" where
  "sequential [] x = Inr x"
| "sequential (m # ms) x = bind_res (module_apply m x) (sequential ms)"

text \<open>
  Reverse accumulation. \<open>module_vjp m x g\<close> pulls the cotangent \<open>g\<close> of the output of
  \<open>m\<close> at input \<open>x\<close> back to the input: through a linear layer it is multiplied by
  the weight matrix, through tanh by \<open>1 - tanh\<^sup>2\<close>.
\<close>

definition vecmat :: "vec \<Rightarrow> real list list \<Rightarrow> nat \<Rightarrow> vec" where
  "vecmat g W n = map (\<lambda>j. sum_list (map2 (\<lambda>gi w. gi * w ! j) g W)) [0..<n]"

fun module_vjp :: "module \<Rightarrow> vec \<Rightarrow> vec \<Rightarrow> vec" where
  "module_vjp (Linear l) x g = vecmat g (weight l) (in_features l)"
| "module_vjp Tanh x g = map2 (\<lambda>xi gi. (1 - (tanh xi)\<^sup>2) * gi) x g"

fun sequential_vjp :: "module list \<Rightarrow> vec \<Rightarrow> vec \<Rightarrow> error + vec" where
  "sequential_vjp [] x g = Inr g"
| "sequential_vjp (m # ms) x g =
     bind_res (module_apply m x) (\<lambda>y.
     bind_res (sequential_vjp ms y g) (\<lambda>gy.
       Inr (module_vjp m x gy)))"

text \<open>
  \<^verbatim>\<open>torch.autograd.grad(out.sum(), x)\<close> where \<open>out\<close> is the output of the layers
  \<open>ms\<close> on the batch \<open>x\<close>: each row of the result is the gradient of the summed output
  of that row.
\<close>

definition grad_row :: "module list \<Rightarrow> vec \<Rightarrow> error + vec" where
  "grad_row ms x =
     bind_res (sequential ms x) (\<lambda>y. sequential_vjp ms x (replicate (length y) 1))"

definition autograd_grad :: "module list \<Rightarrow> tensor \<Rightarrow> error + tensor" where
  "autograd_grad ms x = map_res (grad_row ms) x"

subsection \<open>The estimators\<close>

record adaptable_HNN =
  hnn_input_model :: "module list"
  hnn_energy_layer :: "module list"

record adaptable_partial_HNN =
  potential :: bool
  input_model :: "module list"
  energy_layer :: "module list"

text \<open>
  \<^verbatim>\<open>adaptable_HNN.forward(q, p, params, training)\<close> returns \<open>(H, -dH_dq, dH_dp)\<close>.
  The gradient with respect to the concatenated input is cut back into the columns of
  \<open>q\<close> and of \<open>p\<close>.
\<close>

definition HNN_forward ::
  "adaptable_HNN \<Rightarrow> tensor \<Rightarrow> tensor \<Rightarrow> tensor option \<Rightarrow> bool
     \<Rightarrow> error + (tensor \<times> tensor \<times> tensor)" where
  "HNN_forward net q p params training =
     (case params of None \<Rightarrow> Inl TypeError | Some ps \<Rightarrow>
        bind_res (cat1 [q, p, ps]) (\<lambda>input.
        bind_res (map_res (sequential (hnn_input_model net)) input) (\<lambda>sequential_output.
        bind_res (map_res (sequential (hnn_energy_layer net)) sequential_output) (\<lambda>H.
        bind_res (autograd_grad (hnn_input_model net @ hnn_energy_layer net) input) (\<lambda>g.
          let dH_dq = map2 (\<lambda>qr gr. take (length qr) gr) q g;
              dH_dp = map2 (\<lambda>(qr, pr) gr. take (length pr) (drop (length qr) gr)) (zip q p) g
          in if training then Inr (H, neg dH_dq, dH_dp)
             else Inr (H, neg dH_dq, dH_dp))))))"

text \<open>
  \<^verbatim>\<open>adaptable_partial_HNN.forward(qp, params, training)\<close>: the potential net returns
  \<open>(V, -dV_dq)\<close> from \<open>qp\<close> joined with \<open>params\<close>; the kinetic net returns
  \<open>(K, dK_dp)\<close> from \<open>qp\<close> alone.
\<close>

definition partial_HNN_forward ::
  "adaptable_partial_HNN \<Rightarrow> tensor \<Rightarrow> tensor option \<Rightarrow> bool
     \<Rightarrow> error + (tensor \<times> tensor)" where
  "partial_HNN_forward net qp params training =
     (if potential net then
        (case params of None \<Rightarrow> Inl TypeError | Some ps \<Rightarrow>
           bind_res (cat1 [qp, ps]) (\<lambda>input.
           bind_res (map_res (sequential (input_model net)) input) (\<lambda>sequential_output.
           bind_res (map_res (sequential (energy_layer net)) sequential_output) (\<lambda>V.
           bind_res (autograd_grad (input_model net @ energy_layer net) input) (\<lambda>g.
             let dH_dq = map2 (\<lambda>qr gr. take (length qr) gr) qp g
             in if training then Inr (V, neg dH_dq)
                else Inr (V, neg dH_dq))))))
      else
        bind_res (map_res (sequential (input_model net)) qp) (\<lambda>sequential_output.
        bind_res (map_res (sequential (energy_layer net)) sequential_output) (\<lambda>K.
        bind_res (autograd_grad (input_model net @ energy_layer net) qp) (\<lambda>dH_dp.
          if training then Inr (K, dH_dp)
          else Inr (K, dH_dp)))))"

subsection \<open>The recurrent integrator\<close>

text \<open>
  The constructor sets \<^verbatim>\<open>K_net\<close> and \<^verbatim>\<open>V_net\<close> when \<^verbatim>\<open>separable\<close> is true and
  \<^verbatim>\<open>HNN\<close> otherwise; an attribute that was not set is \<open>None\<close>, and using it raises
  \<open>AttributeError\<close>.
\<close>

record adaptable_sympRNN =
  separable :: bool
  dt :: real
  K_net :: "adaptable_partial_HNN option"
  V_net :: "adaptable_partial_HNN option"
  HNN :: "adaptable_HNN option"

definition call_partial ::
  "adaptable_partial_HNN option \<Rightarrow> tensor \<Rightarrow> tensor option \<Rightarrow> bool
     \<Rightarrow> error + (tensor \<times> tensor)" where
  "call_partial net qp params training =
     (case net of None \<Rightarrow> Inl AttributeError
      | Some n \<Rightarrow> partial_HNN_forward n qp params training)"

definition call_full ::
  "adaptable_HNN option \<Rightarrow> tensor \<Rightarrow> tensor \<Rightarrow> tensor option \<Rightarrow> bool
     \<Rightarrow> error + (tensor \<times> tensor \<times> tensor)" where
  "call_full net q p params training =
     (case net of None \<Rightarrow> Inl AttributeError
      | Some n \<Rightarrow> HNN_forward n q p params training)"

text \<open>
  \<^verbatim>\<open>step\<close>: in the training branch the nets are called with their default
  \<^verbatim>\<open>training=True\<close>, in the other branch with \<^verbatim>\<open>training=False\<close>. The names \<open>K\<close> and
  \<open>V\<close> are assigned twice each; the returned sum uses the last assignment.
\<close>

definition step ::
  "adaptable_sympRNN \<Rightarrow> tensor \<Rightarrow> tensor \<Rightarrow> tensor option \<Rightarrow> bool
     \<Rightarrow> error + (tensor \<times> tensor \<times> tensor)" where
  "step self q p params training =
     (if training then
        bind_res (call_partial (K_net self) p params True) (\<lambda>(K, qdot).
        bind_res (tensor_add q (scale (dt self / 2) qdot)) (\<lambda>q_half.
        bind_res (call_partial (V_net self) q_half params True) (\<lambda>(V, pdot_t).
        bind_res (tensor_add p (scale (dt self) pdot_t)) (\<lambda>p_next.
        bind_res (call_partial (K_net self) p_next params True) (\<lambda>(K, qdot_t).
        bind_res (tensor_add q_half (scale (dt self / 2) qdot_t)) (\<lambda>q_next.
        bind_res (call_partial (V_net self) q_next params True) (\<lambda>(V, pdot).
        bind_res (tensor_add K V) (\<lambda>E.
          Inr (E, q_next, p_next)))))))))
      else
        bind_res (call_partial (K_net self) p params False) (\<lambda>(K, qdot).
        bind_res (tensor_add q (scale (dt self / 2) qdot)) (\<lambda>q_half.
        bind_res (call_partial (V_net self) q_half params False) (\<lambda>(V, pdot).
        bind_res (tensor_add p (scale (dt self) pdot)) (\<lambda>p_next.
        bind_res (call_partial (K_net self) p_next params False) (\<lambda>(K, qdot).
        bind_res (tensor_add q_half (scale (dt self / 2) qdot)) (\<lambda>q_next.
        bind_res (call_partial (V_net self) q_next params False) (\<lambda>(V, pdot).
        bind_res (tensor_add K V) (\<lambda>E.
          Inr (E, q_next, p_next))))))))))"

definition step2 ::
  "adaptable_sympRNN \<Rightarrow> tensor \<Rightarrow> tensor \<Rightarrow> tensor option \<Rightarrow> bool
     \<Rightarrow> error + (tensor \<times> tensor \<times> tensor)" where
  "step2 self q p params training =
     (if training then
        bind_res (call_full (HNN self) q p params True) (\<lambda>(H, pdot, qdot).
        bind_res (tensor_add q (scale (dt self / 2) qdot)) (\<lambda>q_half.
        bind_res (call_full (HNN self) q_half p params True) (\<lambda>(_, pdot_t, qdot_t).
        bind_res (tensor_add p (scale (dt self) pdot_t)) (\<lambda>p_next.
        bind_res (call_full (HNN self) q_half p_next params True) (\<lambda>(_, pdot_half, qdot_t).
        bind_res (tensor_add q_half (scale (dt self / 2) qdot_t)) (\<lambda>q_next.
          Inr (H, q_next, p_next)))))))
      else
        bind_res (call_full (HNN self) q p params False) (\<lambda>(H, pdot, qdot).
        bind_res (tensor_add q (scale (dt self / 2) qdot)) (\<lambda>q_half.
        bind_res (call_full (HNN self) q_half p params False) (\<lambda>(_, pdot_t, qdot_t).
        bind_res (tensor_add p (scale (dt self) pdot_t)) (\<lambda>p_next.
        bind_res (call_full (HNN self) q_half p_next params False) (\<lambda>(_, pdot_half, qdot_t).
        bind_res (tensor_add q_half (scale (dt self / 2) qdot_t)) (\<lambda>q_next.
          Inr (H, q_next, p_next))))))))"

definition call_V ::
  "adaptable_sympRNN \<Rightarrow> tensor \<Rightarrow> tensor option \<Rightarrow> error + (tensor \<times> tensor)" where
  "call_V self q params = call_partial (V_net self) q params False"

definition call_K :: "adaptable_sympRNN \<Rightarrow> tensor \<Rightarrow> error + (tensor \<times> tensor)" where
  "call_K self p = call_partial (K_net self) p None False"

definition call_HNN ::
  "adaptable_sympRNN \<Rightarrow> tensor \<Rightarrow> tensor \<Rightarrow> tensor option
     \<Rightarrow> error + (tensor \<times> tensor \<times> tensor)" where
  "call_HNN self q p params = call_full (HNN self) q p params False"

text \<open>
  \<^verbatim>\<open>forward\<close>. The body of the loop over \<^verbatim>\<open>range(final)\<close> reads slot \<open>t\<close> of the
  buffers \<open>q\<close> and \<open>p\<close>, calls the integrator cell and writes slot \<open>t\<close> of \<open>H\<close> and slot
  \<open>t + 1\<close> of \<open>q\<close> and \<open>p\<close>.
\<close>

definition cell ::
  "adaptable_sympRNN \<Rightarrow> tensor \<Rightarrow> tensor \<Rightarrow> tensor option \<Rightarrow> bool
     \<Rightarrow> error + (tensor \<times> tensor \<times> tensor)" where
  "cell self q p params training =
     (if separable self then step self q p params training
      else step2 self q p params training)"

fun forward_loop ::
  "adaptable_sympRNN \<Rightarrow> tensor option \<Rightarrow> bool \<Rightarrow> nat list
     \<Rightarrow> tensor3 \<times> tensor3 \<times> tensor3 \<Rightarrow> error + (tensor3 \<times> tensor3 \<times> tensor3)" where
  "forward_loop self params training [] bufs = Inr bufs"
| "forward_loop self params training (t # ts) (H, q, p) =
     bind_res (getitem q t) (\<lambda>q_t.
     bind_res (getitem p t) (\<lambda>p_t.
     bind_res (cell self q_t p_t params training) (\<lambda>(E, q_next, p_next).
     bind_res (setitem H t E) (\<lambda>H'.
     bind_res (setitem q (t + 1) q_next) (\<lambda>q'.
     bind_res (setitem p (t + 1) p_next) (\<lambda>p'.
       forward_loop self params training ts (H', q', p')))))))"

text \<open>The buffers as they stand when the loop has ended, before the return slices them.\<close>

definition forward_buffers ::
  "adaptable_sympRNN \<Rightarrow> tensor \<Rightarrow> tensor \<Rightarrow> tensor option \<Rightarrow> nat \<Rightarrow> bool
     \<Rightarrow> error + (tensor3 \<times> tensor3 \<times> tensor3)" where
  "forward_buffers self q_initial p_initial params final training =
     (case shape q_initial of (batch, width) \<Rightarrow>
        let q = zeros (final + 1) batch width;
            p = zeros (final + 1) batch width;
            H = zeros final batch 1
        in bind_res (setitem q 0 q_initial) (\<lambda>q.
           bind_res (setitem p 0 p_initial) (\<lambda>p.
             forward_loop self params training [0..<final] (H, q, p))))"

definition forward ::
  "adaptable_sympRNN \<Rightarrow> tensor \<Rightarrow> tensor \<Rightarrow> tensor option \<Rightarrow> nat \<Rightarrow> bool
     \<Rightarrow> error + (tensor3 \<times> tensor3 \<times> tensor3)" where
  "forward self q_initial p_initial params final training =
     bind_res (forward_buffers self q_initial p_initial params final training)
       (\<lambda>(H, q, p). Inr (H, drop 1 q, drop 1 p))"

subsection \<open>Python numbers, slices and the loss\<close>

text \<open>
  A Python float is a real or NaN. \<^verbatim>\<open>x / n\<close> raises \<open>ZeroDivisionError\<close> when
  \<open>n\<close> is zero, whether \<open>x\<close> is an int or a float; the accumulators start at the
  int \<open>0\<close>, written \<open>Float 0\<close>.
\<close>

datatype pyfloat = Float real | NaN

fun py_add :: "pyfloat \<Rightarrow> pyfloat \<Rightarrow> pyfloat" where
  "py_add (Float x) (Float y) = Float (x + y)"
| "py_add _ _ = NaN"

definition py_truediv :: "pyfloat \<Rightarrow> int \<Rightarrow> error + pyfloat" where
  "py_truediv x n =
     (if n = 0 then Inl ZeroDivisionError
      else Inr (case x of Float r \<Rightarrow> Float (r / of_int n) | NaN \<Rightarrow> NaN))"

text \<open>
  \<^verbatim>\<open>int(n / d)\<close> for a row count \<open>n\<close> and an int \<open>d\<close>: the quotient, rounded
  towards zero (row counts are far below the size at which the float quotient could
  round to the next integer).
\<close>

definition int_truediv :: "nat \<Rightarrow> int \<Rightarrow> error + int" where
  "int_truediv n d =
     (if d = 0 then Inl ZeroDivisionError
      else if 0 < d then Inr (int n div d)
      else Inr (- (int n div (- d))))"

text \<open>\<^verbatim>\<open>xs[i:j]\<close>: a negative bound counts from the end, and both bounds are clamped.\<close>

definition py_slice :: "'a list \<Rightarrow> int \<Rightarrow> int \<Rightarrow> 'a list" where
  "py_slice xs i j =
     (let n = int (length xs);
          lo = (if i < 0 then max (n + i) 0 else min i n);
          hi = (if j < 0 then max (n + j) 0 else min j n)
      in take (nat (hi - lo)) (drop (nat lo) xs))"

text \<open>\<^verbatim>\<open>x[:, i:j, :]\<close> on a 3-D tensor.\<close>

definition slice_batch3 :: "tensor3 \<Rightarrow> int \<Rightarrow> int \<Rightarrow> tensor3" where
  "slice_batch3 x i j = map (\<lambda>m. py_slice m i j) x"

text \<open>\<^verbatim>\<open>torch.cat((a, b), dim=2)\<close> on 3-D tensors.\<close>

definition cat2 :: "tensor3 \<Rightarrow> tensor3 \<Rightarrow> error + tensor3" where
  "cat2 a b =
     (if map length a = map length b then Inr (map2 (map2 (@)) a b)
      else Inl ShapeMismatch)"

text \<open>
  \<^verbatim>\<open>nn.MSELoss()(a, b).item()\<close>: the mean of the squared differences over all
  elements, NaN when there is no element.
\<close>

definition mse_loss :: "tensor3 \<Rightarrow> tensor3 \<Rightarrow> error + pyfloat" where
  "mse_loss a b =
     (if map (map length) a = map (map length) b
      then (let sq = concat (concat (map2 (map2 (map2 (\<lambda>x y. (x - y)\<^sup>2))) a b))
            in Inr (if sq = [] then NaN else Float (sum_list sq / of_nat (length sq))))
      else Inl ShapeMismatch)"

subsection \<open>The training driver\<close>

text \<open>
  The five tensors of one data set: \<^verbatim>\<open>q_input_*\<close>, \<^verbatim>\<open>p_input_*\<close>, \<^verbatim>\<open>params_*\<close>
  (2-D) and \<^verbatim>\<open>q_output_*\<close>, \<^verbatim>\<open>p_output_*\<close> (3-D, time first).
\<close>

record dataset =
  q_input :: tensor
  p_input :: tensor
  params_input :: tensor
  q_output :: tensor3
  p_output :: tensor3

text \<open>
  Backpropagation of the loss and the Adam update are not modelled as computations:
  they are the three functions below, of any gradient type \<open>'g\<close> and optimiser state
  \<open>'o\<close>. \<open>backward\<close> adds the gradient of the loss of one call (at the given weights,
  inputs and targets) to the stored gradients; \<open>optimizer_step\<close> maps the optimiser
  state, the stored gradients and the model to the new state and the new model.
\<close>

record ('g, 'o) torch =
  Adam :: "adaptable_sympRNN \<Rightarrow> real \<Rightarrow> 'o"
  backward :: "adaptable_sympRNN \<Rightarrow> tensor \<times> tensor \<times> tensor \<times> nat
                 \<Rightarrow> tensor3 \<times> tensor3 \<Rightarrow> 'g option \<Rightarrow> 'g option"
  optimizer_step :: "'o \<Rightarrow> 'g option \<Rightarrow> adaptable_sympRNN \<Rightarrow> 'o \<times> adaptable_sympRNN"

text \<open>
  What \<^verbatim>\<open>train_validate\<close> mutates: the model (its weights), its train/eval flag, the
  stored gradients and the optimiser. \<open>fed\<close> is an observation of the run and is read
  by no operation: the arguments of every call \<^verbatim>\<open>model(...)\<close>, in order, written by
  the call itself.
\<close>

record ('g, 'o) trainer =
  model :: adaptable_sympRNN
  training_mode :: bool
  grads :: "'g option"
  optimizer :: 'o
  fed :: "(tensor \<times> tensor \<times> tensor \<times> nat) list"

text \<open>A raise inside the driver leaves the state as it was at the raise.\<close>

definition raise_in :: "'s \<Rightarrow> error + 'a \<Rightarrow> (error \<times> 's) + 'a" where
  "raise_in st r = (case r of Inl e \<Rightarrow> Inl (e, st) | Inr v \<Rightarrow> Inr v)"

text \<open>
  \<^verbatim>\<open>model(q, p, params, time)\<close>: the module call runs \<^verbatim>\<open>forward\<close> on these arguments
  with its default \<^verbatim>\<open>training=True\<close>. The call and its record in \<open>fed\<close> are one
  operation, so \<open>fed\<close> lists the arguments \<^verbatim>\<open>forward\<close> was run on.
\<close>

definition model_call ::
  "('g, 'o) trainer \<Rightarrow> tensor \<Rightarrow> tensor \<Rightarrow> tensor \<Rightarrow> nat
     \<Rightarrow> ('g, 'o) trainer \<times> (error + (tensor3 \<times> tensor3 \<times> tensor3))" where
  "model_call st q p params time =
     (st\<lparr>fed := fed st @ [(q, p, params, time)]\<rparr>,
      forward (model st) q p (Some params) time True)"

text \<open>One iteration of the training loop, for the loop counter \<open>b\<close>.\<close>

definition train_batch ::
  "('g, 'o) torch \<Rightarrow> dataset \<Rightarrow> int \<Rightarrow> nat \<Rightarrow> ('g, 'o) trainer \<times> pyfloat \<Rightarrow> nat
     \<Rightarrow> (error \<times> ('g, 'o) trainer) + (('g, 'o) trainer \<times> pyfloat)" where
  "train_batch ops train batch_size time s b =
     (case s of (st, train_batch_loss) \<Rightarrow>
      let q_input_train_batch = py_slice (q_input train) (int b) (int b + batch_size);
          p_input_train_batch = py_slice (p_input train) (int b) (int b + batch_size);
          q_output_train_batch = slice_batch3 (q_output train) (int b) (int b + batch_size);
          p_output_train_batch = slice_batch3 (p_output train) (int b) (int b + batch_size);
          params_train_batch = py_slice (params_input train) (int b) (int b + batch_size);
          st = st\<lparr>grads := None\<rparr>
      in case model_call st q_input_train_batch p_input_train_batch params_train_batch time of
         (st, result) \<Rightarrow>
         bind_res (raise_in st result) (\<lambda>(_, q, p).
         bind_res (raise_in st (cat2 q p)) (\<lambda>predicted.
         bind_res (raise_in st (cat2 q_output_train_batch p_output_train_batch)) (\<lambda>target.
         bind_res (raise_in st (mse_loss predicted target)) (\<lambda>train_loss.
           let train_batch_loss = py_add train_batch_loss train_loss;
               st = st\<lparr>grads := backward ops (model st)
                                  (q_input_train_batch, p_input_train_batch,
                                   params_train_batch, time)
                                  (q_output_train_batch, p_output_train_batch) (grads st)\<rparr>
           in case optimizer_step ops (optimizer st) (grads st) (model st) of
                (opt', model') \<Rightarrow>
                  Inr (st\<lparr>model := model', optimizer := opt'\<rparr>, train_batch_loss))))))"

text \<open>One iteration of the validation loop: no backward pass, no optimiser step.\<close>

definition valid_batch ::
  "dataset \<Rightarrow> int \<Rightarrow> nat \<Rightarrow> ('g, 'o) trainer \<times> pyfloat \<Rightarrow> nat
     \<Rightarrow> (error \<times> ('g, 'o) trainer) + (('g, 'o) trainer \<times> pyfloat)" where
  "valid_batch valid batch_size time s b =
     (case s of (st, valid_batch_loss) \<Rightarrow>
      let q_input_valid_batch = py_slice (q_input valid) (int b) (int b + batch_size);
          p_input_valid_batch = py_slice (p_input valid) (int b) (int b + batch_size);
          q_output_valid_batch = slice_batch3 (q_output valid) (int b) (int b + batch_size);
          p_output_valid_batch = slice_batch3 (p_output valid) (int b) (int b + batch_size);
          params_valid_batch = py_slice (params_input valid) (int b) (int b + batch_size);
          st = st\<lparr>grads := None\<rparr>
      in case model_call st q_input_valid_batch p_input_valid_batch params_valid_batch time of
         (st, result) \<Rightarrow>
         bind_res (raise_in st result) (\<lambda>(_, q, p).
         bind_res (raise_in st (cat2 q p)) (\<lambda>predicted.
         bind_res (raise_in st (cat2 q_output_valid_batch p_output_valid_batch)) (\<lambda>target.
         bind_res (raise_in st (mse_loss predicted target)) (\<lambda>valid_loss.
           Inr (st, py_add valid_batch_loss valid_loss))))))"

fun train_loop ::
  "('g, 'o) torch \<Rightarrow> dataset \<Rightarrow> int \<Rightarrow> nat \<Rightarrow> nat list \<Rightarrow> ('g, 'o) trainer \<times> pyfloat
     \<Rightarrow> (error \<times> ('g, 'o) trainer) + (('g, 'o) trainer \<times> pyfloat)" where
  "train_loop ops train batch_size time [] s = Inr s"
| "train_loop ops train batch_size time (b # bs) s =
     bind_res (train_batch ops train batch_size time s b)
       (train_loop ops train batch_size time bs)"

fun valid_loop ::
  "dataset \<Rightarrow> int \<Rightarrow> nat \<Rightarrow> nat list \<Rightarrow> ('g, 'o) trainer \<times> pyfloat
     \<Rightarrow> (error \<times> ('g, 'o) trainer) + (('g, 'o) trainer \<times> pyfloat)" where
  "valid_loop valid batch_size time [] s = Inr s"
| "valid_loop valid batch_size time (b # bs) s =
     bind_res (valid_batch valid batch_size time s b)
       (valid_loop valid batch_size time bs)"

text \<open>The body of the loop over the epochs, for the epoch counter \<open>it\<close>.\<close>

definition epoch ::
  "('g, 'o) torch \<Rightarrow> dataset \<Rightarrow> dataset \<Rightarrow> int \<Rightarrow> nat \<Rightarrow> int \<Rightarrow> int
     \<Rightarrow> ('g, 'o) trainer \<times> pyfloat list \<times> pyfloat list \<Rightarrow> nat
     \<Rightarrow> (error \<times> ('g, 'o) trainer) + (('g, 'o) trainer \<times> pyfloat list \<times> pyfloat list)" where
  "epoch ops train valid batch_size time num_train num_valid s it =
     (case s of (st, training_loss, validation_loss) \<Rightarrow>
      let train_batch_loss = Float 0;
          st = st\<lparr>training_mode := True\<rparr>
      in bind_res (train_loop ops train batch_size time [0..<nat num_train]
                     (st, train_batch_loss)) (\<lambda>(st, train_batch_loss).
         bind_res (raise_in st (py_truediv train_batch_loss num_train)) (\<lambda>train_batch_loss.
           let training_loss = training_loss[it := train_batch_loss];
               valid_batch_loss = Float 0;
               st = st\<lparr>training_mode := False\<rparr>
           in bind_res (valid_loop valid batch_size time [0..<nat num_valid]
                          (st, valid_batch_loss)) (\<lambda>(st, valid_batch_loss).
              bind_res (raise_in st (py_truediv valid_batch_loss num_valid)) (\<lambda>valid_batch_loss.
                let validation_loss = validation_loss[it := valid_batch_loss]
                in Inr (st, training_loss, validation_loss))))))"

fun epochs ::
  "('g, 'o) torch \<Rightarrow> dataset \<Rightarrow> dataset \<Rightarrow> int \<Rightarrow> nat \<Rightarrow> int \<Rightarrow> int \<Rightarrow> nat list
     \<Rightarrow> ('g, 'o) trainer \<times> pyfloat list \<times> pyfloat list
     \<Rightarrow> (error \<times> ('g, 'o) trainer) + (('g, 'o) trainer \<times> pyfloat list \<times> pyfloat list)" where
  "epochs ops train valid batch_size time num_train num_valid [] s = Inr s"
| "epochs ops train valid batch_size time num_train num_valid (it # its) s =
     bind_res (epoch ops train valid batch_size time num_train num_valid s it)
       (epochs ops train valid batch_size time num_train num_valid its)"

text \<open>
  \<^verbatim>\<open>train_validate\<close>. The result is the raise, with the state it leaves, or the final
  state with the two arrays of losses. The model enters in training mode with no
  stored gradients, as a freshly constructed module.
\<close>

definition train_validate ::
  "('g, 'o) torch \<Rightarrow> adaptable_sympRNN \<Rightarrow> dataset \<Rightarrow> dataset \<Rightarrow> nat \<Rightarrow> int \<Rightarrow> real
     \<Rightarrow> (error \<times> ('g, 'o) trainer) + (('g, 'o) trainer \<times> pyfloat list \<times> pyfloat list)" where
  "train_validate ops model0 train valid n_epochs batch_size learning_rate =
     (let st = \<lparr>model = model0, training_mode = True, grads = None,
                optimizer = Adam ops model0 learning_rate, fed = []\<rparr>
      in bind_res (raise_in st (int_truediv (length (q_input train)) batch_size)) (\<lambda>num_train.
         bind_res (raise_in st (int_truediv (length (q_input valid)) batch_size)) (\<lambda>num_valid.
           let time = length (q_output train);
               training_loss = replicate n_epochs NaN;
               validation_loss = replicate n_epochs NaN
           in epochs ops train valid batch_size time num_train num_valid [0..<n_epochs]
                (st, training_loss, validation_loss))))"

text \<open>What the caller of \<^verbatim>\<open>train_validate\<close> sees: the raise or the returned pair.\<close>

definition returned ::
  "(error \<times> 's) + ('s \<times> 'a) \<Rightarrow> error + 'a" where
  "returned r = (case r of Inl (e, _) \<Rightarrow> Inl e | Inr (_, v) \<Rightarrow> Inr v)"

definition final_state :: "(error \<times> 's) + ('s \<times> 'a) \<Rightarrow> 's" where
  "final_state r = (case r of Inl (_, st) \<Rightarrow> st | Inr (st, _) \<Rightarrow> st)"

subsection \<open>Outcomes of one loop iteration\<close>

text \<open>
  The arguments of the model call of iteration \<open>b\<close>, its targets, and the state after
  a training iteration that ran to its end.
\<close>

definition call_of :: "dataset \<Rightarrow> int \<Rightarrow> nat \<Rightarrow> nat \<Rightarrow> tensor \<times> tensor \<times> tensor \<times> nat" where
  "call_of D batch_size time b =
     (py_slice (q_input D) (int b) (int b + batch_size),
      py_slice (p_input D) (int b) (int b + batch_size),
      py_slice (params_input D) (int b) (int b + batch_size), time)"

definition targets_of :: "dataset \<Rightarrow> int \<Rightarrow> nat \<Rightarrow> tensor3 \<times> tensor3" where
  "targets_of D batch_size b =
     (slice_batch3 (q_output D) (int b) (int b + batch_size),
      slice_batch3 (p_output D) (int b) (int b + batch_size))"

definition stepped ::
  "('g, 'o) torch \<Rightarrow> dataset \<Rightarrow> int \<Rightarrow> nat \<Rightarrow> ('g, 'o) trainer \<Rightarrow> nat
     \<Rightarrow> ('g, 'o) trainer" where
  "stepped ops D batch_size time st b =
     (let call = call_of D batch_size time b;
          g = backward ops (model st) call (targets_of D batch_size b) None
      in st\<lparr>grads := g, fed := fed st @ [call],
            model := snd (optimizer_step ops (optimizer st) g (model st)),
            optimizer := fst (optimizer_step ops (optimizer st) g (model st))\<rparr>)"

text \<open>A run either raises and leaves the state \<open>st\<close>, or returns a state with \<open>P\<close>.\<close>

definition ends :: "'s \<Rightarrow> ('s \<Rightarrow> bool) \<Rightarrow> (error \<times> 's) + ('s \<times> 'a) \<Rightarrow> bool" where
  "ends st P r \<longleftrightarrow> (\<exists>e. r = Inl (e, st)) \<or> (\<exists>s a. r = Inr (s, a) \<and> P s)"

subsection \<open>Batches, in the words of the specification\<close>


subsection \<open>The energy of a separable step, in the words of the specification\<close>

text \<open>
  The specification describes the energy of a separable step as the kinetic value of
  the first substep, \<open>K(p)\<close> at the momentum entering the step, plus the potential at
  the final position. This definition follows those words; it is compared with
  \<open>step\<close> below.
\<close>

definition spec_step_energy ::
  "adaptable_sympRNN \<Rightarrow> tensor \<Rightarrow> tensor \<Rightarrow> tensor option \<Rightarrow> bool \<Rightarrow> error + tensor" where
  "spec_step_energy self q p params training =
     bind_res (call_partial (K_net self) p params training) (\<lambda>(K, _).
     bind_res (step self q p params training) (\<lambda>(_, q_next, _).
     bind_res (call_partial (V_net self) q_next params training) (\<lambda>(V, _).
       tensor_add K V)))"

subsection \<open>Concrete instances\<close>

text \<open>
  A separable model on one position and one momentum with one parameter:
  \<open>K(p) = tanh p\<close> and \<open>V(q; c) = tanh q\<close>, step size 2.
\<close>

definition demo_K_net :: adaptable_partial_HNN where
  "demo_K_net = \<lparr>potential = False,
     input_model = [Linear \<lparr>in_features = 1, weight = [[1]], bias = [0]\<rparr>, Tanh],
     energy_layer = [Linear \<lparr>in_features = 1, weight = [[1]], bias = [0]\<rparr>]\<rparr>"

definition demo_V_net :: adaptable_partial_HNN where
  "demo_V_net = \<lparr>potential = True,
     input_model = [Linear \<lparr>in_features = 2, weight = [[1, 0]], bias = [0]\<rparr>, Tanh],
     energy_layer = [Linear \<lparr>in_features = 1, weight = [[1]], bias = [0]\<rparr>]\<rparr>"

definition demo_rnn :: adaptable_sympRNN where
  "demo_rnn = \<lparr>separable = True, dt = 2, K_net = Some demo_K_net, V_net = Some demo_V_net,
     HNN = None\<rparr>"

text \<open>A non-separable model with \<open>H(q, p; c) = tanh (q + p)\<close>, step size 2.\<close>

definition demo_HNN :: adaptable_HNN where
  "demo_HNN = \<lparr>
     hnn_input_model = [Linear \<lparr>in_features = 3, weight = [[1, 1, 0]], bias = [0]\<rparr>, Tanh],
     hnn_energy_layer = [Linear \<lparr>in_features = 1, weight = [[1]], bias = [0]\<rparr>]\<rparr>"

definition demo_rnn2 :: adaptable_sympRNN where
  "demo_rnn2 = \<lparr>separable = False, dt = 2, K_net = None, V_net = None, HNN = Some demo_HNN\<rparr>"

text \<open>
  A separable model with \<open>K(p) = tanh p + c\<close> and \<open>V = 0\<close>, step size 2: from momentum
  0 one step moves every position by 2 and reports the energy \<open>c\<close>.
\<close>

definition free_rnn :: "real \<Rightarrow> adaptable_sympRNN" where
  "free_rnn c = \<lparr>separable = True, dt = 2,
     K_net = Some \<lparr>potential = False,
       input_model = [Linear \<lparr>in_features = 1, weight = [[1]], bias = [0]\<rparr>, Tanh],
       energy_layer = [Linear \<lparr>in_features = 1, weight = [[1]], bias = [c]\<rparr>]\<rparr>,
     V_net = Some \<lparr>potential = True,
       input_model = [Linear \<lparr>in_features = 2, weight = [[0, 0]], bias = [0]\<rparr>, Tanh],
       energy_layer = [Linear \<lparr>in_features = 1, weight = [[1]], bias = [0]\<rparr>]\<rparr>,
     HNN = None\<rparr>"

text \<open>
  An optimiser that counts its steps and sets the bias \<open>c\<close> of the model above to the
  count, and a data set of four rows whose targets are the positions moved by 2.
\<close>

definition demo_ops :: "(unit, nat) torch" where
  "demo_ops = \<lparr>Adam = (\<lambda>m lr. 0),
     backward = (\<lambda>m call target g. Some ()),
     optimizer_step = (\<lambda>n g m. (Suc n, free_rnn (real (Suc n))))\<rparr>"

definition demo_data :: dataset where
  "demo_data = \<lparr>q_input = [[0], [1], [2], [3]],
     p_input = [[0], [0], [0], [0]],
     params_input = [[0], [0], [0], [0]],
     q_output = [[[2], [3], [4], [5]]],
     p_output = [[[0], [0], [0], [0]]]\<rparr>"

definition demo_small_data :: dataset where
  "demo_small_data = \<lparr>q_input = [[0]], p_input = [[0]], params_input = [[0]],
     q_output = [[[2]]], p_output = [[[0]]]\<rparr>"

definition demo_trainer :: "(unit, nat) trainer" where
  "demo_trainer = \<lparr>model = free_rnn 0, training_mode = True, grads = None, optimizer = 0,
     fed = []\<rparr>"

text \<open>A model object on which no attribute was set: every integrator step raises.\<close>

definition bare_rnn :: adaptable_sympRNN where
  "bare_rnn = \<lparr>separable = True, dt = 1, K_net = None, V_net = None, HNN = None\<rparr>"

section \<open>Properties\<close>

subsection \<open>Results and buffers\<close>

lemma bind_res_Inr: "bind_res r f = Inr y \<longleftrightarrow> (\<exists>v. r = Inr v \<and> f v = Inr y)"
  by (cases r) (simp_all add: bind_res_def)



subsection \<open>The integrator steps\<close>

text \<open>
  A separable step returns exactly when its four estimator calls and its four
  additions succeed, in the order of the source; both branches of \<^verbatim>\<open>training\<close>
  compute the same chain.
\<close>

lemma step_Inr:
  "step self q p params training = Inr (E, q_next, p_next) \<longleftrightarrow>
     (\<exists>K qdot q_half V pdot K' qdot' V' pdot'.
        call_partial (K_net self) p params training = Inr (K, qdot) \<and>
        tensor_add q (scale (dt self / 2) qdot) = Inr q_half \<and>
        call_partial (V_net self) q_half params training = Inr (V, pdot) \<and>
        tensor_add p (scale (dt self) pdot) = Inr p_next \<and>
        call_partial (K_net self) p_next params training = Inr (K', qdot') \<and>
        tensor_add q_half (scale (dt self / 2) qdot') = Inr q_next \<and>
        call_partial (V_net self) q_next params training = Inr (V', pdot') \<and>
        tensor_add K' V' = Inr E)"
  unfolding step_def by (cases training) (auto simp: bind_res_Inr)

lemma step2_Inr:
  "step2 self q p params training = Inr (H, q_next, p_next) \<longleftrightarrow>
     (\<exists>pdot qdot q_half H' pdot_t qdot_t H'' pdot_half qdot_t'.
        call_full (HNN self) q p params training = Inr (H, pdot, qdot) \<and>
        tensor_add q (scale (dt self / 2) qdot) = Inr q_half \<and>
        call_full (HNN self) q_half p params training = Inr (H', pdot_t, qdot_t) \<and>
        tensor_add p (scale (dt self) pdot_t) = Inr p_next \<and>
        call_full (HNN self) q_half p_next params training = Inr (H'', pdot_half, qdot_t') \<and>
        tensor_add q_half (scale (dt self / 2) qdot_t') = Inr q_next)"
  unfolding step2_def by (cases training) (auto simp: bind_res_Inr)

text \<open>
  On a network of one input, one hidden unit and one output, the reverse accumulation
  returns the derivative of the value.
\<close>

lemma scalar_net_gradient:
  "sequential [Linear \<lparr>in_features = 1, weight = [[w1]], bias = [b1]\<rparr>, Tanh,
               Linear \<lparr>in_features = 1, weight = [[w2]], bias = [b2]\<rparr>] [x]
     = Inr [w2 * tanh (w1 * x + b1) + b2]"
  "grad_row [Linear \<lparr>in_features = 1, weight = [[w1]], bias = [b1]\<rparr>, Tanh,
             Linear \<lparr>in_features = 1, weight = [[w2]], bias = [b2]\<rparr>] [x]
     = Inr [(1 - (tanh (w1 * x + b1))\<^sup>2) * w2 * w1]"
  "((\<lambda>x. w2 * tanh (w1 * x + b1) + b2) has_real_derivative
      (1 - (tanh (w1 * x + b1))\<^sup>2) * w2 * w1) (at x)"
  by (auto simp: grad_row_def bind_res_def dot_def vecmat_def intro!: derivative_eq_intros)

text \<open>The demo models, evaluated.\<close>

lemmas net_defs = bind_res_def call_partial_def call_full_def partial_HNN_forward_def
  HNN_forward_def autograd_grad_def grad_row_def tensor_add_def same_shape_def scale_def
  neg_def dot_def vecmat_def eval_nat_numeral

lemma demo_dt: "dt demo_rnn = 2" "dt demo_rnn2 = 2"
  by (simp_all add: demo_rnn_def demo_rnn2_def)

lemma demo_K: "call_partial (K_net demo_rnn) [[x]] ps tr = Inr ([[tanh x]], [[1 - (tanh x)\<^sup>2]])"
  by (simp add: demo_rnn_def demo_K_net_def net_defs)

lemma demo_V:
  "call_partial (V_net demo_rnn) [[x]] (Some [[c]]) tr = Inr ([[tanh x]], [[(tanh x)\<^sup>2 - 1]])"
  by (simp add: demo_rnn_def demo_V_net_def net_defs)

lemma demo_H:
  "call_full (HNN demo_rnn2) [[x]] [[y]] (Some [[c]]) tr =
     Inr ([[tanh (x + y)]], [[(tanh (x + y))\<^sup>2 - 1]], [[1 - (tanh (x + y))\<^sup>2]])"
  by (simp add: demo_rnn2_def demo_HNN_def net_defs)

lemma demo_step:
  "step demo_rnn [[-1]] [[0]] (Some [[0]]) tr =
     Inr ([[tanh (1 - (tanh 2)\<^sup>2) - tanh 2]], [[1 - (tanh 2)\<^sup>2]], [[-2]])"
  unfolding step_def
  by (simp add: demo_dt demo_K demo_V bind_res_def tensor_add_def same_shape_def scale_def)

lemma demo_step2:
  "step2 demo_rnn2 [[0]] [[0]] (Some [[0]]) tr =
     Inr ([[0]], [[2 - (tanh (1 + 2 * ((tanh 1)\<^sup>2 - 1)))\<^sup>2]], [[2 * ((tanh 1)\<^sup>2 - 1)]])"
  unfolding step2_def
  by (simp add: demo_dt demo_H bind_res_def tensor_add_def same_shape_def scale_def)

text \<open>The energy of the non-separable demo model at the state leaving that step is not 0.\<close>

lemma demo_exit_energy:
  "tanh (2 - (tanh (1 + 2 * ((tanh 1)\<^sup>2 - 1)))\<^sup>2 + 2 * ((tanh 1)\<^sup>2 - 1)) \<noteq> (0::real)"
proof -
  let ?t = "tanh (1::real)"
  let ?x = "1 + 2 * (?t\<^sup>2 - 1)"
  have t: "0 < ?t" "?t < 1" by (simp_all add: tanh_real_lt_1)
  then have t2: "0 < ?t\<^sup>2" "?t\<^sup>2 < 1" by (simp_all add: abs_square_less_1)
  then have x: "- 1 < ?x" "?x < 1" by simp_all
  from x(2) have "tanh ?x < tanh 1" by (simp only: tanh_real_less_iff)
  moreover from x(1) have "tanh (- 1) < tanh ?x" by (simp only: tanh_real_less_iff)
  then have "- ?t < tanh ?x" by (simp only: tanh_minus)
  ultimately have "\<bar>tanh ?x\<bar> < ?t" by (simp only: abs_less_iff) simp
  then have "\<bar>tanh ?x\<bar>\<^sup>2 < ?t\<^sup>2" by (intro power_strict_mono) simp_all
  then have lt: "(tanh ?x)\<^sup>2 < ?t\<^sup>2" by (simp only: power2_abs)
  have nn: "0 \<le> ?t\<^sup>2" by simp
  have lin: "(a::real) < b \<Longrightarrow> 0 \<le> b \<Longrightarrow> 0 < 2 - a + 2 * (b - 1)" for a b
    by (simp add: algebra_simps)
  from lin [OF lt nn] have "0 < 2 - (tanh ?x)\<^sup>2 + 2 * (?t\<^sup>2 - 1)" .
  then show ?thesis by simp
qed

text \<open>
  C1. Whenever a separable step returns \<open>(E, q_next, p_next)\<close>, the update was computed
  in three substeps in this order: \<open>q_half = q + dt/2 * qdot\<close> with \<open>qdot\<close> the gradient
  returned by the K-net at the current \<open>p\<close>; \<open>p_next = p + dt * pdot\<close> with \<open>pdot\<close>
  the output of the V-net at \<open>(q_half, params)\<close>; \<open>q_next = q_half + dt/2 * qdot'\<close>
  with \<open>qdot'\<close> the gradient returned by the K-net at \<open>p_next\<close>.
\<close>

theorem step_three_substeps:
  assumes "step self q p params training = Inr (E, q_next, p_next)"
  shows "\<exists>K qdot q_half V pdot K' qdot'.
     call_partial (K_net self) p params training = Inr (K, qdot) \<and>
     tensor_add q (scale (dt self / 2) qdot) = Inr q_half \<and>
     call_partial (V_net self) q_half params training = Inr (V, pdot) \<and>
     tensor_add p (scale (dt self) pdot) = Inr p_next \<and>
     call_partial (K_net self) p_next params training = Inr (K', qdot') \<and>
     tensor_add q_half (scale (dt self / 2) qdot') = Inr q_next"
  using assms unfolding step_Inr by blast

theorem step_three_substeps_witness:
  "step demo_rnn [[-1]] [[0]] (Some [[0]]) True =
     Inr ([[tanh (1 - (tanh 2)\<^sup>2) - tanh 2]], [[1 - (tanh 2)\<^sup>2]], [[-2]]) \<and>
   (\<exists>K qdot q_half V pdot K' qdot'.
     call_partial (K_net demo_rnn) [[0]] (Some [[0]]) True = Inr (K, qdot) \<and>
     tensor_add [[-1]] (scale (dt demo_rnn / 2) qdot) = Inr q_half \<and>
     call_partial (V_net demo_rnn) q_half (Some [[0]]) True = Inr (V, pdot) \<and>
     tensor_add [[0]] (scale (dt demo_rnn) pdot) = Inr [[-2]] \<and>
     call_partial (K_net demo_rnn) [[-2]] (Some [[0]]) True = Inr (K', qdot') \<and>
     tensor_add q_half (scale (dt demo_rnn / 2) qdot') = Inr [[1 - (tanh 2)\<^sup>2]])"
  using step_three_substeps [OF demo_step [of True]] demo_step [of True] by simp

text \<open>
  C2. The claim reads the returned energy as \<open>K(p)\<close>, the kinetic value of the first
  substep, plus \<open>V(q_next, params)\<close>. In the source the name \<open>K\<close> is assigned again by
  the third estimator call, so the returned sum is \<open>K(p_next) + V(q_next, params)\<close>. On
  the demo model, from \<open>q = -1\<close>, \<open>p = 0\<close>, the step arrives at \<open>p_next = -2\<close> and the
  two energies differ by \<open>tanh 2\<close>.
\<close>

theorem step_energy_counterexample:
  "step demo_rnn [[-1]] [[0]] (Some [[0]]) True =
     Inr ([[tanh (1 - (tanh 2)\<^sup>2) - tanh 2]], [[1 - (tanh 2)\<^sup>2]], [[-2]]) \<and>
   spec_step_energy demo_rnn [[-1]] [[0]] (Some [[0]]) True =
     Inr [[tanh (1 - (tanh 2)\<^sup>2)]] \<and>
   [[tanh (1 - (tanh 2)\<^sup>2) - tanh 2]] \<noteq> [[tanh (1 - (tanh 2)\<^sup>2) :: real]]"
  by (simp add: spec_step_energy_def demo_step demo_K demo_V bind_res_def tensor_add_def
      same_shape_def)

text \<open>
  C2, amended. The energy returned by a separable step is the sum of the K-net value at
  the momentum leaving the step and the V-net value at the final position: both
  evaluations are at the state after the step.
\<close>

theorem step_energy_after_step:
  assumes "step self q p params training = Inr (E, q_next, p_next)"
  shows "\<exists>K qdot V pdot.
     call_partial (K_net self) p_next params training = Inr (K, qdot) \<and>
     call_partial (V_net self) q_next params training = Inr (V, pdot) \<and>
     tensor_add K V = Inr E"
  using assms unfolding step_Inr by blast

theorem step_energy_after_step_witness:
  "step demo_rnn [[-1]] [[0]] (Some [[0]]) False =
     Inr ([[tanh (1 - (tanh 2)\<^sup>2) - tanh 2]], [[1 - (tanh 2)\<^sup>2]], [[-2]]) \<and>
   (\<exists>K qdot V pdot.
     call_partial (K_net demo_rnn) [[-2]] (Some [[0]]) False = Inr (K, qdot) \<and>
     call_partial (V_net demo_rnn) [[1 - (tanh 2)\<^sup>2]] (Some [[0]]) False = Inr (V, pdot) \<and>
     tensor_add K V = Inr [[tanh (1 - (tanh 2)\<^sup>2) - tanh 2]])"
  using step_energy_after_step [OF demo_step [of False]] demo_step [of False] by simp

text \<open>
  C10. Whenever the non-separable step returns, its energy is the first output of the
  full estimator at the state \<open>(q, p)\<close> entering the step, with the same \<open>params\<close>;
  the energy of a separable step is made of evaluations at the state leaving it.
\<close>

theorem step2_energy_at_entry:
  "(step2 self q p params training = Inr (H, q_next, p_next) \<longrightarrow>
      (\<exists>pdot qdot. call_full (HNN self) q p params training = Inr (H, pdot, qdot))) \<and>
   (step self' q' p' params' training' = Inr (E, q_next', p_next') \<longrightarrow>
      (\<exists>K qdot V pdot.
         call_partial (K_net self') p_next' params' training' = Inr (K, qdot) \<and>
         call_partial (V_net self') q_next' params' training' = Inr (V, pdot) \<and>
         tensor_add K V = Inr E))"
  unfolding step_Inr step2_Inr by blast

theorem step2_energy_at_entry_witness:
  "step2 demo_rnn2 [[0]] [[0]] (Some [[0]]) True =
     Inr ([[0]], [[2 - (tanh (1 + 2 * ((tanh 1)\<^sup>2 - 1)))\<^sup>2]], [[2 * ((tanh 1)\<^sup>2 - 1)]]) \<and>
   (\<exists>pdot qdot.
      call_full (HNN demo_rnn2) [[0]] [[0]] (Some [[0]]) True = Inr ([[0]], pdot, qdot)) \<and>
   call_full (HNN demo_rnn2) [[2 - (tanh (1 + 2 * ((tanh 1)\<^sup>2 - 1)))\<^sup>2]]
       [[2 * ((tanh 1)\<^sup>2 - 1)]] (Some [[0]]) True =
     Inr ([[tanh (2 - (tanh (1 + 2 * ((tanh 1)\<^sup>2 - 1)))\<^sup>2 + 2 * ((tanh 1)\<^sup>2 - 1))]],
          [[(tanh (2 - (tanh (1 + 2 * ((tanh 1)\<^sup>2 - 1)))\<^sup>2 + 2 * ((tanh 1)\<^sup>2 - 1)))\<^sup>2 - 1]],
          [[1 - (tanh (2 - (tanh (1 + 2 * ((tanh 1)\<^sup>2 - 1)))\<^sup>2 + 2 * ((tanh 1)\<^sup>2 - 1)))\<^sup>2]]) \<and>
   tanh (2 - (tanh (1 + 2 * ((tanh 1)\<^sup>2 - 1)))\<^sup>2 + 2 * ((tanh 1)\<^sup>2 - 1)) \<noteq> (0::real) \<and>
   step demo_rnn [[-1]] [[0]] (Some [[0]]) True =
     Inr ([[tanh (1 - (tanh 2)\<^sup>2) - tanh 2]], [[1 - (tanh 2)\<^sup>2]], [[-2]]) \<and>
   (\<exists>K qdot V pdot.
      call_partial (K_net demo_rnn) [[-2]] (Some [[0]]) True = Inr (K, qdot) \<and>
      call_partial (V_net demo_rnn) [[1 - (tanh 2)\<^sup>2]] (Some [[0]]) True = Inr (V, pdot) \<and>
      tensor_add K V = Inr [[tanh (1 - (tanh 2)\<^sup>2) - tanh 2]])"
proof -
  note T = step2_energy_at_entry [where self = demo_rnn2 and q = "[[0]]" and p = "[[0]]"
      and params = "Some [[0]]" and training = True and H = "[[0]]"
      and q_next = "[[2 - (tanh (1 + 2 * ((tanh 1)\<^sup>2 - 1)))\<^sup>2]]"
      and p_next = "[[2 * ((tanh 1)\<^sup>2 - 1)]]"
      and self' = demo_rnn and q' = "[[-1]]" and p' = "[[0]]" and params' = "Some [[0]]"
      and training' = True and E = "[[tanh (1 - (tanh 2)\<^sup>2) - tanh 2]]"
      and q_next' = "[[1 - (tanh 2)\<^sup>2]]" and p_next' = "[[-2]]"]
  note a = T [THEN conjunct1, rule_format, OF demo_step2 [of True]]
  note b = T [THEN conjunct2, rule_format, OF demo_step [of True]]
  show ?thesis
    by (intro conjI) (rule demo_step2 a demo_H demo_exit_energy demo_step b)+
qed

text \<open>
  C8. An estimator built with the potential flag off computes its output from the
  momentum alone: any two values of the \<open>params\<close> argument, \<open>None\<close> included, give
  the same outcome, and \<^verbatim>\<open>call_K\<close>, which passes \<open>None\<close>, agrees with every other call
  in inference mode.
\<close>

theorem kinetic_ignores_params:
  "\<not> potential net \<Longrightarrow>
     partial_HNN_forward net p params training = partial_HNN_forward net p params' training \<and>
     (K_net self = Some net \<longrightarrow> call_K self p = partial_HNN_forward net p params False)"
  by (simp add: partial_HNN_forward_def call_K_def call_partial_def)

theorem kinetic_ignores_params_witness:
  "\<not> potential demo_K_net \<and>
   partial_HNN_forward demo_K_net [[3]] (Some [[5, 7]]) True =
     partial_HNN_forward demo_K_net [[3]] None True \<and>
   partial_HNN_forward demo_K_net [[3]] None True = Inr ([[tanh 3]], [[1 - (tanh 3)\<^sup>2]]) \<and>
   K_net demo_rnn = Some demo_K_net \<and>
   call_K demo_rnn [[3]] = partial_HNN_forward demo_K_net [[3]] (Some [[5, 7]]) False"
  using kinetic_ignores_params [of demo_K_net "[[3]]" "Some [[5, 7]]" True None demo_rnn]
  by (simp add: demo_K_net_def demo_rnn_def net_defs)

subsection \<open>The rollout\<close>











text \<open>
  C9. With horizon 0 the rollout of well-formed initial tensors of one shape returns
  three empty sequences, whatever the model: the loop body is never entered, so no
  integrator step is called, also on a model whose every step would raise.
\<close>

theorem forward_zero_horizon:
  assumes "is_tensor q_initial" and "same_shape q_initial p_initial"
  shows "forward self q_initial p_initial params 0 training = Inr ([], [], [])"
proof -
  obtain batch width where sh: "shape q_initial = (batch, width)"
    by (cases "shape q_initial")
  with assms(1) have "map length q_initial = replicate batch width"
    by (auto simp: is_tensor_def shape_def)
  with assms(2) have "same_shape (replicate batch (replicate width 0)) q_initial"
    "same_shape (replicate batch (replicate width 0)) p_initial"
    by (simp_all add: same_shape_def)
  then show ?thesis
    by (simp add: forward_def forward_buffers_def sh zeros_def setitem_def bind_res_def)
qed

theorem forward_zero_horizon_witness:
  "is_tensor [[1, 2], [3, 4]] \<and> same_shape [[1, 2], [3, 4]] [[0, 0], [0, 0]] \<and>
   forward bare_rnn [[1, 2], [3, 4]] [[0, 0], [0, 0]] None 0 True = Inr ([], [], []) \<and>
   cell bare_rnn [[1, 2], [3, 4]] [[0, 0], [0, 0]] None True = Inl AttributeError"
proof -
  have t: "is_tensor [[1, 2], [3, 4]]" and s: "same_shape [[1, 2], [3, 4]] [[0, 0], [0, 0]]"
    by (simp_all add: is_tensor_def shape_def same_shape_def)
  have c: "cell bare_rnn [[1, 2], [3, 4]] [[0, 0], [0, 0]] None True = Inl AttributeError"
    by (simp add: cell_def step_def bare_rnn_def call_partial_def bind_res_def)
  from forward_zero_horizon [OF t s, of bare_rnn None True] t s c show ?thesis
    by blast
qed

subsection \<open>The training driver\<close>

lemma raise_in_simps [simp]:
  "raise_in st (Inl e) = Inl (e, st)" "raise_in st (Inr v) = Inr v"
  by (simp_all add: raise_in_def)

lemma final_state_simps [simp]:
  "final_state (Inl (e, st)) = st" "final_state (Inr (st, v)) = st"
  by (simp_all add: final_state_def)

lemma bind_res_simps [simp]:
  "bind_res (Inl e) f = Inl e" "bind_res (Inr v) f = f v"
  by (simp_all add: bind_res_def)

lemma ends_bind: "(\<And>v. ends st P (f v)) \<Longrightarrow> ends st P (bind_res (raise_in st x) f)"
  by (cases x) (simp_all add: ends_def)

lemma ends_Inr: "P s \<Longrightarrow> ends st P (Inr (s, a))"
  by (simp add: ends_def)

lemma ends_prod: "(\<And>a b. ends st P (f a b)) \<Longrightarrow> ends st P (case v of (a, b) \<Rightarrow> f a b)"
  by (cases v) simp

text \<open>
  One iteration of either loop clears the stored gradients and records one call; a
  validation iteration changes nothing else, a training iteration that runs to its
  end also takes the optimiser step.
\<close>

lemma valid_batch_ends:
  "ends (st\<lparr>grads := None, fed := fed st @ [call_of D batch_size time b]\<rparr>)
     (\<lambda>s. s = st\<lparr>grads := None, fed := fed st @ [call_of D batch_size time b]\<rparr>)
     (valid_batch D batch_size time (st, acc) b)"
  unfolding valid_batch_def call_of_def model_call_def
  apply (simp add: Let_def)
  apply (intro ends_bind ends_prod ends_Inr)
  apply (rule refl)
  done

lemma train_batch_ends:
  "ends (st\<lparr>grads := None, fed := fed st @ [call_of D batch_size time b]\<rparr>)
     (\<lambda>s. s = stepped ops D batch_size time st b)
     (train_batch ops D batch_size time (st, acc) b)"
  unfolding train_batch_def call_of_def stepped_def targets_of_def model_call_def
  apply (simp add: Let_def)
  apply (rule ends_bind)
  apply (rule ends_prod)
  apply (rule ends_prod)
  apply (intro ends_bind)
  apply (simp add: split_beta)
  apply (rule ends_Inr)
  apply simp
  done


lemma model_stepped:
  "model (stepped ops D batch_size time st b) =
     snd (optimizer_step ops (optimizer st)
            (backward ops (model st) (call_of D batch_size time b) (targets_of D batch_size b) None)
            (model st))"
  by (simp add: stepped_def Let_def)

lemma valid_loop_model:
  "model (final_state (valid_loop D batch_size time xs (st, acc))) = model st"
proof (induction xs arbitrary: st acc)
  case Nil
  show ?case by simp
next
  case (Cons b xs)
  from valid_batch_ends [of st D batch_size time b acc] show ?case
    by (auto simp: ends_def Cons.IH)
qed






text \<open>The free model, the demo data and the demo optimiser, evaluated.\<close>

lemma free_dt: "dt (free_rnn c) = 2" "separable (free_rnn c)"
  by (simp_all add: free_rnn_def)

lemma free_K:
  "call_partial (K_net (free_rnn c)) [[x], [y]] ps tr =
     Inr ([[tanh x + c], [tanh y + c]], [[1 - (tanh x)\<^sup>2], [1 - (tanh y)\<^sup>2]])"
  by (simp add: free_rnn_def net_defs)

lemma free_V:
  "call_partial (V_net (free_rnn c)) [[x], [y]] (Some [[u], [v]]) tr =
     Inr ([[0], [0]], [[0], [0]])"
  by (simp add: free_rnn_def net_defs)

lemma free_step:
  "step (free_rnn c) [[a], [b]] [[0], [0]] (Some [[u], [v]]) tr =
     Inr ([[c], [c]], [[a + 2], [b + 2]], [[0], [0]])"
  unfolding step_def
  by (simp add: free_dt free_K free_V tensor_add_def same_shape_def scale_def)

lemma free_forward:
  "forward (free_rnn c) [[a], [b]] [[0], [0]] (Some [[u], [v]]) (Suc 0) tr =
     Inr ([[[c], [c]]], [[[a + 2], [b + 2]]], [[[0], [0]]])"
  by (simp add: forward_def forward_buffers_def shape_def zeros_def setitem_def getitem_def
      same_shape_def cell_def free_step free_dt)

lemma demo_slices:
  "py_slice [[0], [1], [2], [3::real]] (int 0) (int 0 + 2) = [[0], [1]]"
  "py_slice [[0], [1], [2], [3::real]] (int 1) (int 1 + 2) = [[1], [2]]"
  "py_slice [[0], [0], [0], [0::real]] (int 0) (int 0 + 2) = [[0], [0]]"
  "py_slice [[0], [0], [0], [0::real]] (int 1) (int 1 + 2) = [[0], [0]]"
  "py_slice [[2], [3], [4], [5::real]] (int 0) (int 0 + 2) = [[2], [3]]"
  "py_slice [[2], [3], [4], [5::real]] (int 1) (int 1 + 2) = [[3], [4]]"
  by (simp_all add: py_slice_def)

lemma demo_train_batch0:
  "train_batch demo_ops demo_data 2 (Suc 0) (demo_trainer, Float 0) 0 =
     Inr (\<lparr>model = free_rnn 1, training_mode = True, grads = Some (), optimizer = Suc 0,
            fed = [([[0], [1]], [[0], [0]], [[0], [0]], Suc 0)]\<rparr>, Float 0)"
  using demo_slices
  by (simp add: train_batch_def model_call_def demo_data_def demo_trainer_def demo_ops_def slice_batch3_def
      free_forward cat2_def mse_loss_def Let_def)

lemma demo_train_batch1:
  "train_batch demo_ops demo_data 2 (Suc 0)
     (\<lparr>model = free_rnn 1, training_mode = True, grads = Some (), optimizer = Suc 0,
            fed = [([[0], [1]], [[0], [0]], [[0], [0]], Suc 0)]\<rparr>, Float 0) (Suc 0) =
     Inr (\<lparr>model = free_rnn 2, training_mode = True, grads = Some (), optimizer = Suc (Suc 0),
            fed = [([[0], [1]], [[0], [0]], [[0], [0]], Suc 0),
                   ([[1], [2]], [[0], [0]], [[0], [0]], Suc 0)]\<rparr>, Float 0)"
  using demo_slices
  by (simp add: train_batch_def model_call_def demo_data_def demo_ops_def slice_batch3_def
      free_forward cat2_def mse_loss_def Let_def)

lemma demo_train_loop:
  "train_loop demo_ops demo_data 2 (Suc 0) [0..<2] (demo_trainer, Float 0) =
     Inr (\<lparr>model = free_rnn 2, training_mode = True, grads = Some (), optimizer = Suc (Suc 0),
            fed = [([[0], [1]], [[0], [0]], [[0], [0]], Suc 0),
                   ([[1], [2]], [[0], [0]], [[0], [0]], Suc 0)]\<rparr>, Float 0)"
proof -
  have "[0..<2] = [0, Suc 0]" by (simp add: upt_rec)
  then show ?thesis by (simp add: demo_train_batch0 demo_train_batch1)
qed

lemma demo_valid_batch:
  "valid_batch demo_data 2 (Suc 0)
     (\<lparr>model = free_rnn c, training_mode = m, grads = g, optimizer = n, fed = f\<rparr>, Float 0) 0 =
     Inr (\<lparr>model = free_rnn c, training_mode = m, grads = None, optimizer = n,
            fed = f @ [([[0], [1]], [[0], [0]], [[0], [0]], Suc 0)]\<rparr>, Float 0)"
  "valid_batch demo_data 2 (Suc 0)
     (\<lparr>model = free_rnn c, training_mode = m, grads = g, optimizer = n, fed = f\<rparr>, Float 0) (Suc 0) =
     Inr (\<lparr>model = free_rnn c, training_mode = m, grads = None, optimizer = n,
            fed = f @ [([[1], [2]], [[0], [0]], [[0], [0]], Suc 0)]\<rparr>, Float 0)"
  using demo_slices
  by (simp_all add: valid_batch_def model_call_def demo_data_def slice_batch3_def
      free_forward cat2_def mse_loss_def Let_def)


lemma demo_valid_loop:
  "valid_loop demo_data 2 (Suc 0) [0..<2]
     (\<lparr>model = free_rnn c, training_mode = m, grads = g, optimizer = n, fed = f\<rparr>, Float 0) =
     Inr (\<lparr>model = free_rnn c, training_mode = m, grads = None, optimizer = n,
            fed = f @ [([[0], [1]], [[0], [0]], [[0], [0]], Suc 0),
                       ([[1], [2]], [[0], [0]], [[0], [0]], Suc 0)]\<rparr>, Float 0)"
proof -
  have "[0..<2] = [0, Suc 0]" by (simp add: upt_rec)
  then show ?thesis by (simp add: demo_valid_batch)
qed

lemma demo_truediv:
  "int_truediv (length (q_input demo_data)) 2 = Inr 2"
  "int_truediv (length (q_input demo_data)) 5 = Inr 0"
  "int_truediv (length (q_input demo_small_data)) 2 = Inr 0"
  "length (q_output demo_data) = Suc 0"
  by (simp_all add: int_truediv_def demo_data_def demo_small_data_def)

lemma demo_epoch:
  "epoch demo_ops demo_data demo_data 2 (Suc 0) 2 2 (demo_trainer, [NaN], [NaN]) 0 =
     Inr (\<lparr>model = free_rnn 2, training_mode = False, grads = None, optimizer = Suc (Suc 0),
            fed = [([[0], [1]], [[0], [0]], [[0], [0]], Suc 0),
                   ([[1], [2]], [[0], [0]], [[0], [0]], Suc 0),
                   ([[0], [1]], [[0], [0]], [[0], [0]], Suc 0),
                   ([[1], [2]], [[0], [0]], [[0], [0]], Suc 0)]\<rparr>, [Float 0], [Float 0])"
proof -
  have t: "demo_trainer\<lparr>training_mode := True\<rparr> = demo_trainer"
    by (simp add: demo_trainer_def)
  show ?thesis
    by (simp add: epoch_def t demo_train_loop demo_valid_loop py_truediv_def)
qed









text \<open>
  C7. A validation iteration, and so the whole validation loop, leaves the model as it
  was, whether it returns or raises. A training iteration that raises leaves the model
  as it was too; one that returns has replaced it by the result of the single optimiser
  step. In an epoch that returns, the model leaving validation is the one the training
  loop produced.
\<close>

theorem validation_keeps_weights:
  "model (final_state (valid_batch D batch_size time (st, acc) b)) = model st \<and>
   model (final_state (valid_loop D batch_size time xs (st, acc))) = model st \<and>
   (\<forall>e st'. train_batch ops D batch_size time (st, acc) b = Inl (e, st') \<longrightarrow>
      model st' = model st) \<and>
   (\<forall>st' acc'. train_batch ops D batch_size time (st, acc) b = Inr (st', acc') \<longrightarrow>
      model st' =
        snd (optimizer_step ops (optimizer st)
               (backward ops (model st) (call_of D batch_size time b)
                  (targets_of D batch_size b) None)
               (model st))) \<and>
   (\<forall>st' tloss' vloss'.
      epoch ops train valid batch_size time num_train num_valid (st, tloss, vloss) it
        = Inr (st', tloss', vloss') \<longrightarrow>
      (\<exists>st1 l. train_loop ops train batch_size time [0..<nat num_train]
                  (st\<lparr>training_mode := True\<rparr>, Float 0) = Inr (st1, l) \<and>
               model st' = model st1))"
proof (intro conjI allI impI)
  from valid_batch_ends [of st D batch_size time b acc]
  show "model (final_state (valid_batch D batch_size time (st, acc) b)) = model st"
    by (auto simp: ends_def)
  show "model (final_state (valid_loop D batch_size time xs (st, acc))) = model st"
    by (rule valid_loop_model)
next
  fix e st'
  assume "train_batch ops D batch_size time (st, acc) b = Inl (e, st')"
  with train_batch_ends [of st D batch_size time b ops acc]
  show "model st' = model st" by (auto simp: ends_def)
next
  fix st' acc'
  assume "train_batch ops D batch_size time (st, acc) b = Inr (st', acc')"
  with train_batch_ends [of st D batch_size time b ops acc]
  have "st' = stepped ops D batch_size time st b" by (auto simp: ends_def)
  then show "model st' =
        snd (optimizer_step ops (optimizer st)
               (backward ops (model st) (call_of D batch_size time b)
                  (targets_of D batch_size b) None)
               (model st))"
    by (simp add: model_stepped)
next
  fix st' tloss' vloss'
  assume "epoch ops train valid batch_size time num_train num_valid (st, tloss, vloss) it
        = Inr (st', tloss', vloss')"
  then obtain st1 l l' where
    t: "train_loop ops train batch_size time [0..<nat num_train]
          (st\<lparr>training_mode := True\<rparr>, Float 0) = Inr (st1, l)"
    and v: "valid_loop valid batch_size time [0..<nat num_valid]
          (st1\<lparr>training_mode := False\<rparr>, Float 0) = Inr (st', l')"
    by (auto simp: epoch_def bind_res_Inr Let_def)
  from valid_loop_model [of valid batch_size time "[0..<nat num_valid]"
      "st1\<lparr>training_mode := False\<rparr>" "Float 0"] v
  have "model st' = model st1" by simp
  with t show "\<exists>st1 l. train_loop ops train batch_size time [0..<nat num_train]
                  (st\<lparr>training_mode := True\<rparr>, Float 0) = Inr (st1, l) \<and>
               model st' = model st1"
    by blast
qed

theorem validation_keeps_weights_witness:
  "train_batch demo_ops demo_data 2 (Suc 0) (demo_trainer, Float 0) 0 =
     Inr (\<lparr>model = free_rnn 1, training_mode = True, grads = Some (), optimizer = Suc 0,
            fed = [([[0], [1]], [[0], [0]], [[0], [0]], Suc 0)]\<rparr>, Float 0) \<and>
   free_rnn 1 =
     snd (optimizer_step demo_ops (optimizer demo_trainer)
            (backward demo_ops (model demo_trainer) (call_of demo_data 2 (Suc 0) 0)
               (targets_of demo_data 2 0) None)
            (model demo_trainer)) \<and>
   model demo_trainer = free_rnn 0 \<and>
   epoch demo_ops demo_data demo_data 2 (Suc 0) 2 2 (demo_trainer, [NaN], [NaN]) 0 =
     Inr (\<lparr>model = free_rnn 2, training_mode = False, grads = None, optimizer = Suc (Suc 0),
            fed = [([[0], [1]], [[0], [0]], [[0], [0]], Suc 0),
                   ([[1], [2]], [[0], [0]], [[0], [0]], Suc 0),
                   ([[0], [1]], [[0], [0]], [[0], [0]], Suc 0),
                   ([[1], [2]], [[0], [0]], [[0], [0]], Suc 0)]\<rparr>, [Float 0], [Float 0]) \<and>
   (\<exists>st1 l. train_loop demo_ops demo_data 2 (Suc 0) [0..<nat 2]
                (demo_trainer\<lparr>training_mode := True\<rparr>, Float 0) = Inr (st1, l) \<and>
             free_rnn 2 = model st1) \<and>
   model (final_state (valid_loop demo_data 2 (Suc 0) [0..<2] (demo_trainer, Float 0)))
     = free_rnn 0"
proof -
  note T = validation_keeps_weights [where D = demo_data and batch_size = 2 and time = "Suc 0"
      and st = demo_trainer and acc = "Float 0" and b = 0 and xs = "[0..<2]"
      and ops = demo_ops and train = demo_data and valid = demo_data
      and num_train = 2 and num_valid = 2 and tloss = "[NaN]" and vloss = "[NaN]" and it = 0]
  have m: "model demo_trainer = free_rnn 0" by (simp add: demo_trainer_def)
  note a0 = T [THEN conjunct2, THEN conjunct2, THEN conjunct2, THEN conjunct1, rule_format,
      OF demo_train_batch0]
  then have a: "free_rnn 1 =
     snd (optimizer_step demo_ops (optimizer demo_trainer)
            (backward demo_ops (model demo_trainer) (call_of demo_data 2 (Suc 0) 0)
               (targets_of demo_data 2 0) None)
            (model demo_trainer))"
    by (simp only: trainer.select_convs)
  note b0 = T [THEN conjunct2, THEN conjunct2, THEN conjunct2, THEN conjunct2, rule_format,
      OF demo_epoch]
  then have b: "\<exists>st1 l. train_loop demo_ops demo_data 2 (Suc 0) [0..<nat 2]
                (demo_trainer\<lparr>training_mode := True\<rparr>, Float 0) = Inr (st1, l) \<and>
             free_rnn 2 = model st1"
    by (simp only: trainer.select_convs)
  note c0 = T [THEN conjunct2, THEN conjunct1]
  then have c: "model (final_state (valid_loop demo_data 2 (Suc 0) [0..<2]
      (demo_trainer, Float 0))) = free_rnn 0"
    by (simp only: m)
  show ?thesis
    by (intro conjI) (rule demo_train_batch0 a m demo_epoch b c)+
qed

text \<open>The first epoch when a loop has no iteration.\<close>

lemma epochs_first_raises:
  assumes "0 < n_epochs"
    and "epoch ops train valid batch_size time num_train num_valid s 0 = Inl x"
  shows "epochs ops train valid batch_size time num_train num_valid [0..<n_epochs] s = Inl x"
proof -
  from assms(1) have "[0..<n_epochs] = 0 # [Suc 0..<n_epochs]" by (rule upt_conv_Cons)
  with assms(2) show ?thesis by simp
qed

lemma epoch_no_training_batch:
  "epoch ops train valid batch_size time 0 num_valid (st, tloss, vloss) it =
     Inl (ZeroDivisionError, st\<lparr>training_mode := True\<rparr>)"
  by (simp add: epoch_def py_truediv_def)

lemma epoch_no_validation_batch:
  assumes "num_train \<noteq> 0"
    and "train_loop ops train batch_size time [0..<nat num_train]
           (st\<lparr>training_mode := True\<rparr>, Float 0) = Inr (st1, l)"
  shows "epoch ops train valid batch_size time num_train 0 (st, tloss, vloss) it =
     Inl (ZeroDivisionError, st1\<lparr>training_mode := False\<rparr>)"
  using assms by (simp add: epoch_def py_truediv_def)

lemma epoch_no_validation_batch_raises:
  assumes "num_train \<noteq> 0"
  shows "\<exists>x. epoch ops train valid batch_size time num_train 0 (st, tloss, vloss) it = Inl x"
proof (cases "train_loop ops train batch_size time [0..<nat num_train]
           (st\<lparr>training_mode := True\<rparr>, Float 0)")
  case (Inl x)
  then show ?thesis by (simp add: epoch_def)
next
  case (Inr v)
  then show ?thesis
    using epoch_no_validation_batch [OF assms, of ops train batch_size time st "fst v" "snd v"]
    by simp
qed

text \<open>
  C6, amended. With at least one epoch, \<^verbatim>\<open>train_validate\<close> raises when \<open>num_train\<close> or
  \<open>num_valid\<close> is 0 and returns no losses. With \<open>num_train = 0\<close> the first epoch
  raises \<open>ZeroDivisionError\<close> at the training average, before validation and without
  any call of the model; with \<open>num_train \<noteq> 0\<close> and \<open>num_valid = 0\<close>, once the
  training loop of the first epoch has run to its end, the validation average raises
  \<open>ZeroDivisionError\<close>.
\<close>

theorem zero_batches_raise:
  assumes "int_truediv (length (q_input train)) batch_size = Inr num_train"
    and "int_truediv (length (q_input valid)) batch_size = Inr num_valid"
    and "num_train = 0 \<or> num_valid = 0"
    and "0 < n_epochs"
  shows "(\<exists>e. returned (train_validate ops model0 train valid n_epochs batch_size lr) = Inl e) \<and>
     (num_train = 0 \<longrightarrow>
        train_validate ops model0 train valid n_epochs batch_size lr =
          Inl (ZeroDivisionError,
               \<lparr>model = model0, training_mode = True, grads = None,
                  optimizer = Adam ops model0 lr, fed = []\<rparr>)) \<and>
     (\<forall>st1 l. num_train \<noteq> 0 \<longrightarrow>
        train_loop ops train batch_size (length (q_output train)) [0..<nat num_train]
          (\<lparr>model = model0, training_mode = True, grads = None,
             optimizer = Adam ops model0 lr, fed = []\<rparr>, Float 0) = Inr (st1, l) \<longrightarrow>
        train_validate ops model0 train valid n_epochs batch_size lr =
          Inl (ZeroDivisionError, st1\<lparr>training_mode := False\<rparr>))"
proof -
  let ?st = "\<lparr>model = model0, training_mode = True, grads = None,
               optimizer = Adam ops model0 lr, fed = []\<rparr>"
  let ?s = "(?st, replicate n_epochs NaN, replicate n_epochs NaN)"
  let ?time = "length (q_output train)"
  have tv: "train_validate ops model0 train valid n_epochs batch_size lr =
      epochs ops train valid batch_size ?time num_train num_valid [0..<n_epochs] ?s"
    using assms(1,2) by (simp add: train_validate_def Let_def)
  have st: "?st\<lparr>training_mode := True\<rparr> = ?st" by simp
  have zero: "train_validate ops model0 train valid n_epochs batch_size lr =
      Inl (ZeroDivisionError, ?st)" if "num_train = 0"
  proof -
    have "epoch ops train valid batch_size ?time 0 num_valid ?s 0 =
        Inl (ZeroDivisionError, ?st\<lparr>training_mode := True\<rparr>)"
      by (rule epoch_no_training_batch)
    then have "epoch ops train valid batch_size ?time 0 num_valid ?s 0 =
        Inl (ZeroDivisionError, ?st)"
      by (simp only: st)
    from epochs_first_raises [OF assms(4) this] show ?thesis unfolding tv that .
  qed
  have valid0: "train_validate ops model0 train valid n_epochs batch_size lr =
      Inl (ZeroDivisionError, st1\<lparr>training_mode := False\<rparr>)"
    if "num_train \<noteq> 0"
      "train_loop ops train batch_size ?time [0..<nat num_train] (?st, Float 0) = Inr (st1, l)"
    for st1 l
  proof -
    from that(1) assms(3) have nv: "num_valid = 0" by simp
    from that(2) have "train_loop ops train batch_size ?time [0..<nat num_train]
        (?st\<lparr>training_mode := True\<rparr>, Float 0) = Inr (st1, l)"
      by (simp only: st)
    from epochs_first_raises [OF assms(4) epoch_no_validation_batch [OF that(1) this]]
    show ?thesis unfolding tv nv .
  qed
  have "\<exists>x. train_validate ops model0 train valid n_epochs batch_size lr = Inl x"
  proof (cases "num_train = 0")
    case True
    with zero show ?thesis by blast
  next
    case False
    with assms(3) have nv: "num_valid = 0" by simp
    from epoch_no_validation_batch_raises [OF False]
    obtain x where "epoch ops train valid batch_size ?time num_train 0 ?s 0 = Inl x"
      by blast
    from epochs_first_raises [OF assms(4) this] show ?thesis unfolding tv nv by blast
  qed
  then have "\<exists>e. returned (train_validate ops model0 train valid n_epochs batch_size lr) = Inl e"
    by (auto simp: returned_def)
  with zero valid0 show ?thesis by blast
qed

text \<open>
  C6. The claim has \<^verbatim>\<open>train_validate\<close> complete the epoch and record an average when a
  loop has no iteration. The accumulator is then still the int \<open>0\<close> and the count is
  the int \<open>0\<close>, and Python raises on \<open>0 / 0\<close>: with four training rows and batch size
  5, and with one validation row and batch size 2, the call raises.
\<close>

theorem zero_batches_counterexample:
  "int_truediv (length (q_input demo_data)) 5 = Inr 0 \<and>
   returned (train_validate demo_ops (free_rnn 0) demo_data demo_data 1 5 (1 / 1000))
     = Inl ZeroDivisionError \<and>
   int_truediv (length (q_input demo_data)) 2 = Inr 2 \<and>
   int_truediv (length (q_input demo_small_data)) 2 = Inr 0 \<and>
   returned (train_validate demo_ops (free_rnn 0) demo_data demo_small_data 1 2 (1 / 1000))
     = Inl ZeroDivisionError"
proof -
  have t: "demo_trainer\<lparr>training_mode := True\<rparr> = demo_trainer"
    by (simp add: demo_trainer_def)
  have a: "returned (train_validate demo_ops (free_rnn 0) demo_data demo_data 1 5 (1 / 1000))
     = Inl ZeroDivisionError"
    by (simp add: train_validate_def demo_truediv epoch_no_training_batch returned_def
        upt_rec [of 0 "Suc 0"])
  have i: "\<lparr>model = free_rnn 0, training_mode = True, grads = None,
       optimizer = Adam demo_ops (free_rnn 0) (1 / 1000), fed = []\<rparr> = demo_trainer"
    by (simp add: demo_trainer_def demo_ops_def)
  have "epoch demo_ops demo_data demo_small_data 2 (Suc 0) 2 0
      (demo_trainer, [NaN], [NaN]) 0
    = Inl (ZeroDivisionError,
        \<lparr>model = free_rnn 2, training_mode = True, grads = Some (),
            optimizer = Suc (Suc 0),
            fed = [([[0], [1]], [[0], [0]], [[0], [0]], Suc 0),
                   ([[1], [2]], [[0], [0]], [[0], [0]], Suc 0)]\<rparr>\<lparr>training_mode := False\<rparr>)"
    by (rule epoch_no_validation_batch) (simp_all add: t demo_train_loop)
  then have b: "returned (train_validate demo_ops (free_rnn 0) demo_data demo_small_data 1 2
      (1 / 1000)) = Inl ZeroDivisionError"
    by (simp add: train_validate_def demo_truediv i returned_def upt_rec [of 0 "Suc 0"])
  from a b demo_truediv show ?thesis by simp
qed

theorem zero_batches_raise_witness:
  "int_truediv (length (q_input demo_data)) 5 = Inr 0 \<and> (0::nat) < 3 \<and>
   train_validate demo_ops (free_rnn 0) demo_data demo_data 3 5 (1 / 1000) =
     Inl (ZeroDivisionError,
          \<lparr>model = free_rnn 0, training_mode = True, grads = None,
             optimizer = Adam demo_ops (free_rnn 0) (1 / 1000), fed = []\<rparr>)"
proof -
  have n: "(0::nat) < 3" by simp
  from zero_batches_raise [OF demo_truediv(2) demo_truediv(2) disjI1 [OF refl] n,
      of demo_ops "free_rnn 0" "1 / 1000"] demo_truediv(2) n
  show ?thesis by blast
qed

end
